theory Spec2Isabelle
  imports Main "HOL-Library.Word"
begin

section \<open>JavaScript strings\<close>

text \<open>
  A JavaScript string is a sequence of UTF-16 code units; \<open>length\<close>, \<open>substring\<close> and the
  regular expression engine (without the \<open>u\<close> flag) all count and compare code units.
\<close>

type_synonym code_unit = "16 word"
type_synonym jsstring = "code_unit list"

text \<open>The code units of an ASCII literal of the source.\<close>

definition js :: "string \<Rightarrow> jsstring" where
  "js s = map (\<lambda>c. of_nat (of_char c)) s"

text \<open>
  \<open>String.prototype.trim\<close> removes the code points of WhiteSpace and LineTerminator
  (ECMAScript, StrWhiteSpaceChar) from both ends: TAB, LF, VT, FF, CR, SPACE, NBSP,
  U+1680, U+2000..U+200A, LS, PS, U+202F, U+205F, U+3000 and the BOM.
\<close>

definition isWhiteSpace :: "code_unit \<Rightarrow> bool" where
  "isWhiteSpace c =
     (c = 0x9 \<or> c = 0xA \<or> c = 0xB \<or> c = 0xC \<or> c = 0xD \<or> c = 0x20 \<or> c = 0xA0 \<or>
      c = 0x1680 \<or> (0x2000 \<le> c \<and> c \<le> 0x200A) \<or> c = 0x2028 \<or> c = 0x2029 \<or>
      c = 0x202F \<or> c = 0x205F \<or> c = 0x3000 \<or> c = 0xFEFF)"

definition trim :: "jsstring \<Rightarrow> jsstring" where
  "trim s = rev (dropWhile isWhiteSpace (rev (dropWhile isWhiteSpace s)))"

text \<open>
  \<open>String.prototype.substring(start, end)\<close> on integral arguments: both are clamped to
  \<open>[0, length]\<close> and swapped when \<open>start > end\<close>.
\<close>

definition substring :: "jsstring \<Rightarrow> int \<Rightarrow> int \<Rightarrow> jsstring" where
  "substring s start end =
     (let len = int (length s);
          intStart = min (max start 0) len;
          intEnd = min (max end 0) len;
          from = min intStart intEnd;
          to = max intStart intEnd
      in take (nat (to - from)) (drop (nat from) s))"

text \<open>\<open>a || b\<close> on an optional string: \<open>undefined\<close>, \<open>null\<close> and \<open>''\<close> are falsy.\<close>

definition or_else :: "jsstring option \<Rightarrow> jsstring \<Rightarrow> jsstring" where
  "or_else a b = (case a of None \<Rightarrow> b | Some s \<Rightarrow> if s = [] then b else s)"

section \<open>Regular expressions, as far as \<open>URL_PATTERN\<close> needs them\<close>

text \<open>
  The pattern \<open>/^https?:\/\//i\<close> is built from the start assertion, single characters,
  concatenation and the greedy optional \<open>?\<close>. The matcher is the backtracking matcher
  of ECMAScript with continuations: a term is matched at a position of the input and
  hands the position it reached to its continuation.
\<close>

datatype regex =
    Bol
  | Chr code_unit
  | Seq regex regex
  | Opt regex

text \<open>
  Canonicalize of ECMAScript for a pattern with the \<open>i\<close> flag and without the \<open>u\<close>
  flag: the code unit is replaced by its upper case when that is a single code unit,
  except that a code unit from 128 on never becomes one below 128. For code units
  below 128 the upper case is the ASCII one; for the others it is a table of the
  Unicode standard, the parameter \<open>up\<close> (\<open>None\<close> where the upper case is not a single
  code unit).
\<close>

type_synonym upper_table = "code_unit \<Rightarrow> code_unit option"

definition toUpperCaseAscii :: "code_unit \<Rightarrow> code_unit" where
  "toUpperCaseAscii ch = (if 0x61 \<le> ch \<and> ch \<le> 0x7A then ch - 0x20 else ch)"

definition canonicalize :: "upper_table \<Rightarrow> bool \<Rightarrow> code_unit \<Rightarrow> code_unit" where
  "canonicalize up ignoreCase ch =
     (if \<not> ignoreCase then ch
      else if ch < 128 then toUpperCaseAscii ch
      else (case up ch of
              None \<Rightarrow> ch
            | Some cu \<Rightarrow> if cu < 128 then ch else cu))"

text \<open>The state of a match: the index reached and the input from there on.\<close>

fun rmatch :: "upper_table \<Rightarrow> bool \<Rightarrow> regex \<Rightarrow> nat \<times> jsstring \<Rightarrow>
    (nat \<times> jsstring \<Rightarrow> bool) \<Rightarrow> bool" where
  "rmatch up ic Bol (i, s) k = (i = 0 \<and> k (i, s))"
| "rmatch up ic (Chr c) (i, s) k =
     (case s of
        [] \<Rightarrow> False
      | x # xs \<Rightarrow> canonicalize up ic x = canonicalize up ic c \<and> k (Suc i, xs))"
| "rmatch up ic (Seq a b) st k = rmatch up ic a st (\<lambda>st'. rmatch up ic b st' k)"
| "rmatch up ic (Opt a) st k = (rmatch up ic a st k \<or> k st)"

text \<open>
  \<open>RegExp.prototype.test\<close> for a pattern without the \<open>g\<close> and \<open>y\<close> flags: the match is
  tried at index 0, then at every later index up to the end of the input.
\<close>

fun search :: "upper_table \<Rightarrow> bool \<Rightarrow> regex \<Rightarrow> nat \<Rightarrow> jsstring \<Rightarrow> bool" where
  "search up ic r i [] = rmatch up ic r (i, []) (\<lambda>_. True)"
| "search up ic r i (x # xs) =
     (rmatch up ic r (i, x # xs) (\<lambda>_. True) \<or> search up ic r (Suc i) xs)"

definition test :: "upper_table \<Rightarrow> bool \<Rightarrow> regex \<Rightarrow> jsstring \<Rightarrow> bool" where
  "test up ic r s = search up ic r 0 s"

section \<open>Domain entities (domain/entities/Clipboard.ts)\<close>

text \<open>
  The fields \<open>type\<close> and \<open>content\<close> of \<open>ClipboardContent\<close> are \<open>contentType\<close> and
  \<open>contentText\<close> here: \<open>content\<close> is also a field of \<open>ClipboardResult\<close>. An optional
  field is an \<open>option\<close>, \<open>None\<close> when it is absent.
\<close>

datatype ClipboardContentType = TEXT | URL | EMPTY

record ClipboardContent =
  contentType :: ClipboardContentType
  contentText :: jsstring
  timestamp :: nat

record ClipboardResult =
  success :: bool
  content :: "jsstring option"
  error :: "jsstring option"

definition MAX_CONTENT_LENGTH :: int where
  "MAX_CONTENT_LENGTH = 10000"

text \<open>\<open>/^https?:\/\//i\<close>; the flag \<open>i\<close> is passed to \<open>test\<close>.\<close>

definition URL_PATTERN :: regex where
  "URL_PATTERN =
     Seq Bol (Seq (Chr 0x68) (Seq (Chr 0x74) (Seq (Chr 0x74) (Seq (Chr 0x70)
       (Seq (Opt (Chr 0x73)) (Seq (Chr 0x3A) (Seq (Chr 0x2F) (Chr 0x2F))))))))"

definition isUrl :: "upper_table \<Rightarrow> jsstring \<Rightarrow> bool" where
  "isUrl up text = test up True URL_PATTERN text"

definition detectContentType :: "upper_table \<Rightarrow> jsstring \<Rightarrow> ClipboardContentType" where
  "detectContentType up text =
     (if text = [] \<or> length text = 0 then EMPTY
      else if isUrl up text then URL
      else TEXT)"

definition isValidLength :: "jsstring \<Rightarrow> bool" where
  "isValidLength text = (int (length text) \<le> MAX_CONTENT_LENGTH)"

definition sanitize :: "jsstring \<Rightarrow> jsstring" where
  "sanitize text = substring (trim text) 0 MAX_CONTENT_LENGTH"

text \<open>
  \<open>formatForDisplay\<close>; \<open>maxLength\<close> is a number, here an integer of either sign. Its
  default 100 is what a caller passes that leaves it out.
\<close>

definition formatForDisplay :: "jsstring \<Rightarrow> int \<Rightarrow> jsstring" where
  "formatForDisplay text maxLength =
     (if int (length text) \<le> maxLength then text
      else substring text 0 maxLength @ js ''...'')"

section \<open>Asynchronous calls that may reject\<close>

text \<open>
  An \<open>async\<close> function runs on a world \<open>'w\<close> (the platform clipboard, and for the hook
  also the React state) and either resolves with a value or rejects with the thrown
  value. \<open>await\<close> passes a rejection on, \<open>try { ... } catch (e) { ... }\<close> hands it to
  the handler. A thrown value is an \<open>Error\<close> with its message, or anything else.
\<close>

datatype thrown = ErrorObject jsstring | OtherValue

type_synonym ('w, 'a) async = "'w \<Rightarrow> (thrown + 'a) \<times> 'w"

definition resolve :: "'a \<Rightarrow> ('w, 'a) async" where
  "resolve x w = (Inr x, w)"

definition await :: "('w, 'a) async \<Rightarrow> ('a \<Rightarrow> ('w, 'b) async) \<Rightarrow> ('w, 'b) async" where
  "await m k w = (case m w of (Inl e, w') \<Rightarrow> (Inl e, w') | (Inr x, w') \<Rightarrow> k x w')"

definition andThen :: "('w, 'a) async \<Rightarrow> ('w, 'b) async \<Rightarrow> ('w, 'b) async" where
  "andThen m k = await m (\<lambda>_. k)"

definition try_catch :: "('w, 'a) async \<Rightarrow> (thrown \<Rightarrow> ('w, 'a) async) \<Rightarrow> ('w, 'a) async" where
  "try_catch m handler w = (case m w of (Inl e, w') \<Rightarrow> handler e w' | (Inr x, w') \<Rightarrow> (Inr x, w'))"

text \<open>\<open>error instanceof Error ? error.message : fallback\<close>\<close>

definition message_or :: "thrown \<Rightarrow> jsstring \<Rightarrow> jsstring" where
  "message_or e fallback = (case e of ErrorObject m \<Rightarrow> m | OtherValue \<Rightarrow> fallback)"

text \<open>Truthiness of an optional string: \<open>undefined\<close>, \<open>null\<close> and \<open>''\<close> are falsy.\<close>

definition truthy :: "jsstring option \<Rightarrow> bool" where
  "truthy a = (case a of None \<Rightarrow> False | Some s \<Rightarrow> s \<noteq> [])"

section \<open>The platform clipboard (expo-clipboard)\<close>

text \<open>
  The six calls of the platform module that the service uses, over a platform state
  \<open>'p\<close>. Each may reject. \<open>getUrlAsync\<close> resolves with a string or \<open>null\<close>; what the
  two writes resolve with is never looked at.
\<close>

record 'p platform =
  setStringAsync :: "jsstring \<Rightarrow> ('p, unit) async"
  getStringAsync :: "('p, jsstring) async"
  hasStringAsync :: "('p, bool) async"
  setUrlAsync :: "jsstring \<Rightarrow> ('p, unit) async"
  getUrlAsync :: "('p, jsstring option) async"
  hasUrlAsync :: "('p, bool) async"

section \<open>ClipboardService (infrastructure/services/ClipboardService.ts)\<close>

definition copyText :: "'p platform \<Rightarrow> jsstring \<Rightarrow> ('p, ClipboardResult) async" where
  "copyText P text =
     try_catch
       (let sanitized = sanitize text in
        andThen (setStringAsync P sanitized)
          (resolve \<lparr>success = True, content = Some sanitized, error = None\<rparr>))
       (\<lambda>err. resolve \<lparr>success = False, content = None,
                        error = Some (message_or err (js ''Failed to copy''))\<rparr>)"

definition copyUrl :: "upper_table \<Rightarrow> 'p platform \<Rightarrow> jsstring \<Rightarrow>
    ('p, ClipboardResult) async" where
  "copyUrl up P url =
     try_catch
       (if \<not> isUrl up url
        then resolve \<lparr>success = False, content = None, error = Some (js ''Invalid URL format'')\<rparr>
        else andThen (setUrlAsync P url)
               (resolve \<lparr>success = True, content = Some url, error = None\<rparr>))
       (\<lambda>err. resolve \<lparr>success = False, content = None,
                        error = Some (message_or err (js ''Failed to copy URL''))\<rparr>)"

definition getText :: "'p platform \<Rightarrow> ('p, ClipboardResult) async" where
  "getText P =
     try_catch
       (await (hasStringAsync P) (\<lambda>hasString.
          if \<not> hasString
          then resolve \<lparr>success = False, content = None, error = Some (js ''Clipboard is empty'')\<rparr>
          else await (getStringAsync P) (\<lambda>content.
                 resolve \<lparr>success = True, content = Some content, error = None\<rparr>)))
       (\<lambda>err. resolve \<lparr>success = False, content = None,
                        error = Some (message_or err (js ''Failed to read clipboard''))\<rparr>)"

definition getUrl :: "'p platform \<Rightarrow> ('p, ClipboardResult) async" where
  "getUrl P =
     try_catch
       (await (hasUrlAsync P) (\<lambda>hasUrl.
          if \<not> hasUrl
          then resolve \<lparr>success = False, content = None, error = Some (js ''No URL in clipboard'')\<rparr>
          else await (getUrlAsync P) (\<lambda>url.
                 resolve \<lparr>success = True, content = Some (or_else url (js '''')), error = None\<rparr>)))
       (\<lambda>err. resolve \<lparr>success = False, content = None,
                        error = Some (message_or err (js ''Failed to read URL''))\<rparr>)"

definition hasContent :: "'p platform \<Rightarrow> ('p, bool) async" where
  "hasContent P = try_catch (hasStringAsync P) (\<lambda>err. resolve False)"

definition hasUrl :: "'p platform \<Rightarrow> ('p, bool) async" where
  "hasUrl P = try_catch (hasUrlAsync P) (\<lambda>err. resolve False)"

text \<open>
  \<open>getContent\<close>; \<open>now\<close> is what \<open>Date.now()\<close> returns. The test \<open>!result.content\<close> is
  the case distinction on the optional string: absent or empty gives \<open>null\<close>.
\<close>

definition getContent :: "upper_table \<Rightarrow> nat \<Rightarrow> 'p platform \<Rightarrow>
    ('p, ClipboardContent option) async" where
  "getContent up now P =
     try_catch
       (await (getText P) (\<lambda>result.
          case content result of
            None \<Rightarrow> resolve None
          | Some c \<Rightarrow>
              if \<not> success result \<or> c = [] then resolve None
              else resolve (Some \<lparr>contentType = detectContentType up c, contentText = c,
                                  timestamp = now\<rparr>)))
       (\<lambda>err. resolve None)"

definition clear :: "'p platform \<Rightarrow> ('p, bool) async" where
  "clear P = try_catch (andThen (setStringAsync P (js '''')) (resolve True)) (\<lambda>err. resolve False)"

text \<open>
  The result \<open>{ success, message }\<close> of \<open>copyWithFeedback\<close>; its \<open>success\<close> is
  \<open>feedbackSuccess\<close> here.
\<close>

record Feedback =
  feedbackSuccess :: bool
  message :: jsstring

definition copyWithFeedback :: "'p platform \<Rightarrow> jsstring \<Rightarrow> ('p, Feedback) async" where
  "copyWithFeedback P text =
     await (copyText P text) (\<lambda>result.
       if success result
       then (let preview = formatForDisplay text 50
             in resolve \<lparr>feedbackSuccess = True, message = js ''Copied: '' @ preview\<rparr>)
       else resolve \<lparr>feedbackSuccess = False,
                     message = or_else (error result) (js ''Failed to copy'')\<rparr>)"

section \<open>useClipboard (presentation/hooks/useClipboard.ts)\<close>

text \<open>
  The state of the hook: the three \<open>useState\<close> cells (\<open>error\<close> is \<open>hookError\<close> here,
  since \<open>error\<close> is the field of \<open>ClipboardResult\<close>), and the timers that
  \<open>setTimeout\<close> has scheduled. Every callback the hook schedules is
  \<open>() => setHasCopied(false)\<close>, so a pending timer is its due time in milliseconds.
\<close>

record binding =
  copiedText :: "jsstring option"
  hasCopied :: bool
  hookError :: "jsstring option"
  clock :: nat
  timers :: "nat list"

definition useClipboard :: "nat \<Rightarrow> binding" where
  "useClipboard t0 = \<lparr>copiedText = None, hasCopied = False, hookError = None,
                      clock = t0, timers = []\<rparr>"

definition setCopiedText :: "jsstring option \<Rightarrow> (binding \<times> 'p, unit) async" where
  "setCopiedText v = (\<lambda>(b, p). (Inr (), (b\<lparr>copiedText := v\<rparr>, p)))"

definition setHasCopied :: "bool \<Rightarrow> (binding \<times> 'p, unit) async" where
  "setHasCopied v = (\<lambda>(b, p). (Inr (), (b\<lparr>hasCopied := v\<rparr>, p)))"

definition setError :: "jsstring option \<Rightarrow> (binding \<times> 'p, unit) async" where
  "setError v = (\<lambda>(b, p). (Inr (), (b\<lparr>hookError := v\<rparr>, p)))"

text \<open>\<open>setTimeout(() => setHasCopied(false), delay)\<close>\<close>

definition setTimeout :: "nat \<Rightarrow> (binding \<times> 'p, unit) async" where
  "setTimeout delay = (\<lambda>(b, p). (Inr (), (b\<lparr>timers := timers b @ [clock b + delay]\<rparr>, p)))"

text \<open>
  Time passes between the operations of the hook: after \<open>dt\<close> milliseconds the timers
  that are due have run (each sets \<open>hasCopied\<close> to false) and are gone.
\<close>

definition elapse :: "nat \<Rightarrow> binding \<Rightarrow> binding" where
  "elapse dt b =
     (let t = clock b + dt;
          due = filter (\<lambda>d. d \<le> t) (timers b)
      in b\<lparr>clock := t,
           timers := filter (\<lambda>d. \<not> d \<le> t) (timers b),
           hasCopied := (if due = [] then hasCopied b else False)\<rparr>)"

text \<open>A call of the service from the hook: it runs on the platform part of the world.\<close>

definition service :: "('p, 'a) async \<Rightarrow> (binding \<times> 'p, 'a) async" where
  "service m = (\<lambda>(b, p). case m p of (r, p') \<Rightarrow> (r, (b, p')))"

definition useClipboard_copy :: "'p platform \<Rightarrow> jsstring \<Rightarrow> (binding \<times> 'p, bool) async" where
  "useClipboard_copy P text =
     andThen (setError None)
       (try_catch
          (await (service (copyText P text)) (\<lambda>result.
             if success result
             then andThen (setCopiedText (Some text))
                    (andThen (setHasCopied True)
                       (andThen (setTimeout 2000) (resolve True)))
             else andThen (setError (Some (or_else (error result) (js ''Failed to copy''))))
                    (resolve False)))
          (\<lambda>err. andThen (setError (Some (message_or err (js ''Failed to copy''))))
                    (resolve False)))"

definition useClipboard_copyUrl :: "upper_table \<Rightarrow> 'p platform \<Rightarrow> jsstring \<Rightarrow>
    (binding \<times> 'p, bool) async" where
  "useClipboard_copyUrl up P url =
     andThen (setError None)
       (try_catch
          (await (service (copyUrl up P url)) (\<lambda>result.
             if success result
             then andThen (setCopiedText (Some url))
                    (andThen (setHasCopied True)
                       (andThen (setTimeout 2000) (resolve True)))
             else andThen (setError (Some (or_else (error result) (js ''Failed to copy URL''))))
                    (resolve False)))
          (\<lambda>err. andThen (setError (Some (message_or err (js ''Failed to copy URL''))))
                    (resolve False)))"

definition useClipboard_paste :: "'p platform \<Rightarrow> (binding \<times> 'p, jsstring option) async" where
  "useClipboard_paste P =
     andThen (setError None)
       (try_catch
          (await (service (getText P)) (\<lambda>result.
             if success result \<and> truthy (content result)
             then resolve (content result)
             else andThen (setError (Some (or_else (error result) (js ''Clipboard is empty''))))
                    (resolve None)))
          (\<lambda>err. andThen (setError (Some (message_or err (js ''Failed to paste''))))
                    (resolve None)))"

definition useClipboard_getContent :: "upper_table \<Rightarrow> nat \<Rightarrow> 'p platform \<Rightarrow>
    (binding \<times> 'p, ClipboardContent option) async" where
  "useClipboard_getContent up now P =
     andThen (setError None)
       (try_catch
          (service (getContent up now P))
          (\<lambda>err. andThen (setError (Some (message_or err (js ''Failed to read clipboard''))))
                    (resolve None)))"

definition useClipboard_hasContent :: "'p platform \<Rightarrow> (binding \<times> 'p, bool) async" where
  "useClipboard_hasContent P = try_catch (service (hasContent P)) (\<lambda>err. resolve False)"

definition useClipboard_hasUrl :: "'p platform \<Rightarrow> (binding \<times> 'p, bool) async" where
  "useClipboard_hasUrl P = try_catch (service (hasUrl P)) (\<lambda>err. resolve False)"

definition useClipboard_clear :: "'p platform \<Rightarrow> (binding \<times> 'p, bool) async" where
  "useClipboard_clear P =
     andThen (setError None)
       (try_catch
          (await (service (clear P)) (\<lambda>success.
             andThen (if success
                      then andThen (setCopiedText None) (setHasCopied False)
                      else resolve ())
               (resolve success)))
          (\<lambda>err. resolve False))"

definition useClipboard_copyWithFeedback :: "'p platform \<Rightarrow> jsstring \<Rightarrow>
    (binding \<times> 'p, Feedback) async" where
  "useClipboard_copyWithFeedback P text =
     andThen (setError None)
       (try_catch
          (await (service (copyWithFeedback P text)) (\<lambda>result.
             andThen (if feedbackSuccess result
                      then andThen (setCopiedText (Some text))
                             (andThen (setHasCopied True) (setTimeout 2000))
                      else setError (Some (message result)))
               (resolve result)))
          (\<lambda>err. let message = message_or err (js ''Failed to copy'')
                 in andThen (setError (Some message))
                      (resolve \<lparr>feedbackSuccess = False, message = message\<rparr>)))"

section \<open>Platforms for tests\<close>

text \<open>
  A fake in-memory platform: one slot for the string and one for the URL, nothing ever
  rejects. The platform decides what \<open>hasStringAsync\<close> answers when the stored string
  is empty; the service itself clears the clipboard by writing \<open>''\<close>. The flag
  \<open>emptyIsContent\<close> is that decision.
\<close>

record fake_state =
  stringItem :: "jsstring option"
  urlItem :: "jsstring option"

definition fake :: "bool \<Rightarrow> fake_state platform" where
  "fake emptyIsContent =
     \<lparr>setStringAsync = (\<lambda>s st. (Inr (), st\<lparr>stringItem := Some s\<rparr>)),
      getStringAsync = (\<lambda>st. (Inr (case stringItem st of None \<Rightarrow> [] | Some s \<Rightarrow> s), st)),
      hasStringAsync =
        (\<lambda>st. (Inr (case stringItem st of
                      None \<Rightarrow> False
                    | Some s \<Rightarrow> emptyIsContent \<or> s \<noteq> []), st)),
      setUrlAsync = (\<lambda>u st. (Inr (), st\<lparr>urlItem := Some u\<rparr>)),
      getUrlAsync = (\<lambda>st. (Inr (urlItem st), st)),
      hasUrlAsync = (\<lambda>st. (Inr (urlItem st \<noteq> None), st))\<rparr>"

definition empty_clipboard :: fake_state where
  "empty_clipboard = \<lparr>stringItem = None, urlItem = None\<rparr>"

text \<open>A platform on which every call rejects with the same thrown value.\<close>

definition rejecting :: "thrown \<Rightarrow> unit platform" where
  "rejecting e =
     \<lparr>setStringAsync = (\<lambda>s u. (Inl e, u)),
      getStringAsync = (\<lambda>u. (Inl e, u)),
      hasStringAsync = (\<lambda>u. (Inl e, u)),
      setUrlAsync = (\<lambda>s u. (Inl e, u)),
      getUrlAsync = (\<lambda>u. (Inl e, u)),
      hasUrlAsync = (\<lambda>u. (Inl e, u))\<rparr>"

text \<open>A mock that records every call made to the platform it wraps.\<close>

datatype call = SetString jsstring | GetString | HasString | SetUrl jsstring | GetUrl | HasUrl

definition logged :: "call \<Rightarrow> ('p, 'a) async \<Rightarrow> ('p \<times> call list, 'a) async" where
  "logged c m = (\<lambda>(p, log). case m p of (r, p') \<Rightarrow> (r, (p', log @ [c])))"

definition recording :: "'p platform \<Rightarrow> ('p \<times> call list) platform" where
  "recording P =
     \<lparr>setStringAsync = (\<lambda>s. logged (SetString s) (setStringAsync P s)),
      getStringAsync = logged GetString (getStringAsync P),
      hasStringAsync = logged HasString (hasStringAsync P),
      setUrlAsync = (\<lambda>u. logged (SetUrl u) (setUrlAsync P u)),
      getUrlAsync = logged GetUrl (getUrlAsync P),
      hasUrlAsync = logged HasUrl (hasUrlAsync P)\<rparr>"

fun is_url_write :: "call \<Rightarrow> bool" where
  "is_url_write (SetUrl u) = True"
| "is_url_write c = False"

definition url_writes :: "call list \<Rightarrow> nat" where
  "url_writes log = length (filter is_url_write log)"

text \<open>
  The shape of a \<open>ClipboardResult\<close> that a service operation resolves with:
  \<open>content\<close> is present exactly on success, \<open>error\<close> exactly on failure. A rejected
  call has no result and does not have the shape.
\<close>

definition result_shape :: "thrown + ClipboardResult \<Rightarrow> bool" where
  "result_shape x =
     (case x of
        Inl e \<Rightarrow> False
      | Inr r \<Rightarrow> (content r \<noteq> None) = success r \<and> (error r \<noteq> None) = (\<not> success r))"

text \<open>Inputs of the examples below.\<close>

definition no_upper_case :: upper_table where
  "no_upper_case c = None"

definition denied :: thrown where
  "denied = ErrorObject (js ''Permission denied'')"

definition holding :: "jsstring \<Rightarrow> fake_state" where
  "holding s = \<lparr>stringItem = Some s, urlItem = None\<rparr>"

text \<open>What an operation of the hook leaves behind: the state of the hook, and its error.\<close>

definition binding_after :: "(thrown + 'a) \<times> binding \<times> 'p \<Rightarrow> binding" where
  "binding_after R = fst (snd R)"

definition error_after :: "(thrown + 'a) \<times> binding \<times> 'p \<Rightarrow> jsstring option" where
  "error_after R = hookError (fst (snd R))"

text \<open>The hook on the fake platform after \<open>copyUrl('not-a-url')\<close> has failed.\<close>

definition after_failed_copyUrl :: "binding \<times> fake_state" where
  "after_failed_copyUrl =
     snd (useClipboard_copyUrl no_upper_case (fake False) (js ''not-a-url'')
            (useClipboard 0, empty_clipboard))"

section \<open>The classifier as the specification words it\<close>

text \<open>
  The specification describes \<open>URL_PATTERN\<close> as the case-insensitive prefixes
  \<open>http://\<close> and \<open>https://\<close>. This is that description, independent of the matcher:
  the first characters of the string, with the ASCII capitals lowered, are the prefix.
\<close>

definition asciiLower :: "code_unit \<Rightarrow> code_unit" where
  "asciiLower c = (if 0x41 \<le> c \<and> c \<le> 0x5A then c + 0x20 else c)"

definition has_prefix_ci :: "jsstring \<Rightarrow> jsstring \<Rightarrow> bool" where
  "has_prefix_ci p s = (map asciiLower (take (length p) s) = map asciiLower p)"

definition matches_http_prefix :: "jsstring \<Rightarrow> bool" where
  "matches_http_prefix s =
     (has_prefix_ci (js ''http://'') s \<or> has_prefix_ci (js ''https://'') s)"

section \<open>Properties of the string primitives\<close>

lemma substring_from_0: "0 \<le> n \<Longrightarrow> substring s 0 n = take (nat n) s"
  by (auto simp: substring_def Let_def min_def max_def)

lemma substring_to_negative: "n < 0 \<Longrightarrow> substring s 0 n = []"
  by (auto simp: substring_def Let_def min_def max_def)

lemma js_length: "length (js s) = length s"
  by (simp add: js_def)

lemma trim_replicate:
  "trim (replicate n c) = (if isWhiteSpace c then [] else replicate n c)"
  by (simp add: trim_def)

lemma sanitize_is_take: "sanitize s = take 10000 (trim s)"
  by (simp add: sanitize_def MAX_CONTENT_LENGTH_def substring_from_0)

subsection \<open>Case folding of ASCII code units\<close>

lemma lower_case_range:
  fixes c :: code_unit
  assumes "0x61 \<le> c" "c \<le> 0x7A"
  shows "0x41 \<le> c - 0x20 \<and> c - 0x20 \<le> 0x5A"
proof -
  from assms have b: "97 \<le> unat c" "unat c \<le> 122"
    by (simp_all add: word_le_nat_alt)
  from assms have "unat (c - 0x20) = unat c - unat (0x20 :: code_unit)"
    by (intro unat_sub) (simp add: word_le_nat_alt)
  then have "unat (c - 0x20) = unat c - 32"
    by simp
  with b have "65 \<le> unat (c - 0x20)" "unat (c - 0x20) \<le> 90"
    by arith+
  then show ?thesis
    by (simp add: word_le_nat_alt)
qed

lemma upper_case_range:
  fixes c :: code_unit
  assumes "0x41 \<le> c" "c \<le> 0x5A"
  shows "0x61 \<le> c + 0x20 \<and> c + 0x20 \<le> 0x7A"
proof -
  from assms have b: "65 \<le> unat c" "unat c \<le> 90"
    by (simp_all add: word_le_nat_alt)
  then have "unat (c + 0x20) = unat c + 32"
    by (simp add: unat_word_ariths)
  with b show ?thesis
    by (simp add: word_le_nat_alt)
qed

lemma case_ranges_disjoint:
  fixes c :: code_unit
  shows "0x61 \<le> c \<Longrightarrow> \<not> c \<le> 0x5A"
  by (simp add: word_le_nat_alt)

lemma asciiLower_toUpperCaseAscii: "asciiLower (toUpperCaseAscii c) = asciiLower c"
  using lower_case_range [of c] case_ranges_disjoint [of c]
  by (auto simp: asciiLower_def toUpperCaseAscii_def)

lemma toUpperCaseAscii_asciiLower: "toUpperCaseAscii (asciiLower c) = toUpperCaseAscii c"
  using upper_case_range [of c] case_ranges_disjoint [of c]
  by (auto simp: asciiLower_def toUpperCaseAscii_def)

lemma toUpperCaseAscii_eq_iff:
  "toUpperCaseAscii x = toUpperCaseAscii c \<longleftrightarrow> asciiLower x = asciiLower c"
  by (metis asciiLower_toUpperCaseAscii toUpperCaseAscii_asciiLower)

lemma toUpperCaseAscii_ascii: "c < 128 \<Longrightarrow> toUpperCaseAscii c < 128"
  using lower_case_range [of c]
  by (auto simp: toUpperCaseAscii_def word_le_nat_alt word_less_nat_alt)

lemma asciiLower_ascii: "c < 128 \<Longrightarrow> asciiLower c < 128"
  using upper_case_range [of c]
  by (auto simp: asciiLower_def word_le_nat_alt word_less_nat_alt)

lemma asciiLower_non_ascii: "\<not> c < 128 \<Longrightarrow> asciiLower c = c"
  by (auto simp: asciiLower_def word_le_nat_alt word_less_nat_alt)

lemma canonicalize_non_ascii: "\<not> x < 128 \<Longrightarrow> \<not> canonicalize up True x < 128"
  by (simp add: canonicalize_def split: option.splits)

lemma canonicalize_ascii:
  assumes "c < 128"
  shows "canonicalize up True x = canonicalize up True c \<longleftrightarrow> asciiLower x = asciiLower c"
proof (cases "x < 128")
  case True
  with assms show ?thesis
    by (simp add: canonicalize_def toUpperCaseAscii_eq_iff)
next
  case False
  have "canonicalize up True c < 128"
    using assms by (simp add: canonicalize_def toUpperCaseAscii_ascii)
  with canonicalize_non_ascii [OF False, of up]
  have "canonicalize up True x \<noteq> canonicalize up True c"
    by auto
  moreover have "asciiLower x \<noteq> asciiLower c"
    using asciiLower_non_ascii [OF False] asciiLower_ascii [OF assms] False by auto
  ultimately show ?thesis by simp
qed

subsection \<open>The matcher on \<open>URL_PATTERN\<close>\<close>

lemma rmatch_Chr_ascii:
  "c < 128 \<Longrightarrow> rmatch up True (Chr c) (i, s) k \<longleftrightarrow>
     (s \<noteq> [] \<and> asciiLower (hd s) = asciiLower c \<and> k (Suc i, tl s))"
  by (cases s) (simp_all add: canonicalize_ascii)

lemma has_prefix_ci_Nil: "has_prefix_ci [] s"
  by (simp add: has_prefix_ci_def)

lemma has_prefix_ci_Cons:
  "has_prefix_ci (c # p) s \<longleftrightarrow>
     (s \<noteq> [] \<and> asciiLower (hd s) = asciiLower c \<and> has_prefix_ci p (tl s))"
  by (cases s) (auto simp: has_prefix_ci_def)

lemma search_Bol_later: "0 < i \<Longrightarrow> search up ic (Seq Bol r) i s = False"
  by (induction s arbitrary: i) simp_all

lemma test_Bol: "test up ic (Seq Bol r) s = rmatch up ic r (0, s) (\<lambda>_. True)"
  by (cases s) (simp_all add: test_def search_Bol_later)

lemma isUrl_iff: "isUrl up s \<longleftrightarrow> matches_http_prefix s"
  unfolding isUrl_def URL_PATTERN_def test_Bol matches_http_prefix_def
  apply (simp add: rmatch_Chr_ascii js_def has_prefix_ci_Cons has_prefix_ci_Nil
      del: rmatch.simps(2))
  apply blast
  done

lemma matches_http_prefix_examples:
  "matches_http_prefix (js ''HTTPS://Example.com'')"
  "\<not> matches_http_prefix (js ''ftp://example.com'')"
  "\<not> matches_http_prefix (js '''')"
  by (simp_all add: matches_http_prefix_def has_prefix_ci_def js_def asciiLower_def)

lemma matches_http_prefix_Nil: "\<not> matches_http_prefix []"
  by (simp add: matches_http_prefix_def has_prefix_ci_def js_def)

section \<open>The classifier and sanitizer\<close>

subsection \<open>C1: \<open>sanitize\<close>\<close>

text \<open>
  C1 claims that every string longer than 10000 code units is sanitized to exactly
  10000 code units. The string of 10001 spaces is longer than 10000 and is sanitized
  to the empty string: trimming comes first and leaves nothing to truncate.
\<close>

theorem sanitize_length_counterexample:
  "10000 < length (replicate 10001 (0x20 :: code_unit)) \<and>
   length (sanitize (replicate 10001 (0x20 :: code_unit))) \<noteq> 10000"
  by (simp add: sanitize_is_take trim_replicate isWhiteSpace_def)

text \<open>
  C1, as the code has it: for every string \<open>s\<close>, \<open>sanitize s\<close> is the first 10000 code
  units of \<open>trim s\<close>. Its length is the smaller of 10000 and the length of \<open>trim s\<close>:
  exactly 10000 when the trimmed string has at least 10000 code units, and never more.
\<close>

theorem sanitize_trim_then_truncate:
  "sanitize s = take 10000 (trim s) \<and>
   length (sanitize s) = min (length (trim s)) 10000 \<and>
   (10000 \<le> length (trim s) \<longrightarrow> length (sanitize s) = 10000) \<and>
   length (sanitize s) \<le> 10000"
proof -
  have truncated: "sanitize s = take 10000 (trim s)"
    by (rule sanitize_is_take)
  then have "length (sanitize s) = min (length (trim s)) 10000"
    by simp
  with truncated show ?thesis
    by simp
qed

text \<open>
  A string of 10002 code units, a space before 10001 letters \<open>a\<close>: the space is trimmed
  and 10000 letters stay.
\<close>

theorem sanitize_trim_then_truncate_witness:
  "10000 \<le> length (trim (0x20 # replicate 10001 (0x61 :: code_unit))) \<and>
   sanitize (0x20 # replicate 10001 (0x61 :: code_unit)) = replicate 10000 0x61"
  using sanitize_trim_then_truncate [of "0x20 # replicate 10001 (0x61 :: code_unit)"]
  by (simp add: trim_def isWhiteSpace_def)

subsection \<open>C2: \<open>detectContentType\<close> and \<open>isUrl\<close>\<close>

text \<open>
  C2: for every string \<open>s\<close> (and whatever upper-case table the engine has),
  \<open>detectContentType s\<close> is \<open>EMPTY\<close> exactly when \<open>s\<close> has length 0, it is \<open>URL\<close> exactly
  when \<open>s\<close> begins with \<open>http://\<close> or \<open>https://\<close> in any mix of cases, which is what
  \<open>isUrl\<close> decides with the regular expression, and it is \<open>TEXT\<close> in every other case.
  \<open>isUrl\<close> accepts \<open>HTTPS://Example.com\<close> and rejects \<open>ftp://example.com\<close> and the
  empty string.
\<close>

theorem detectContentType_classification:
  "(detectContentType up s = EMPTY \<longleftrightarrow> length s = 0) \<and>
   (isUrl up s \<longleftrightarrow> matches_http_prefix s) \<and>
   (detectContentType up s = URL \<longleftrightarrow> matches_http_prefix s) \<and>
   (length s \<noteq> 0 \<and> \<not> matches_http_prefix s \<longrightarrow> detectContentType up s = TEXT) \<and>
   isUrl up (js ''HTTPS://Example.com'') \<and>
   \<not> isUrl up (js ''ftp://example.com'') \<and>
   \<not> isUrl up (js '''')"
  using matches_http_prefix_Nil
  by (auto simp: detectContentType_def isUrl_iff matches_http_prefix_examples)

text \<open>The classification at a text that is neither empty nor a URL.\<close>

theorem detectContentType_classification_witness:
  "length (js ''ftp://example.com'') \<noteq> 0 \<and>
   \<not> matches_http_prefix (js ''ftp://example.com'') \<and>
   detectContentType no_upper_case (js ''ftp://example.com'') = TEXT"
  using detectContentType_classification [of no_upper_case "js ''ftp://example.com''"]
  by (simp add: matches_http_prefix_examples js_length)

subsection \<open>C5: \<open>formatForDisplay\<close>\<close>

text \<open>
  C5 claims, for every \<open>maxLength\<close>, that a text longer than \<open>maxLength\<close> is formatted
  to \<open>maxLength + 3\<close> code units. The parameter is a number and may be negative:
  for the text \<open>ab\<close> and \<open>maxLength = -1\<close> the text is longer than \<open>maxLength\<close>,
  \<open>substring(0, -1)\<close> is empty, and the result is the marker alone, of length 3 and
  not 2.
\<close>

theorem formatForDisplay_negative_counterexample:
  "\<not> int (length (js ''ab'')) \<le> -1 \<and>
   formatForDisplay (js ''ab'') (-1) = js ''...'' \<and>
   int (length (formatForDisplay (js ''ab'') (-1))) \<noteq> -1 + 3"
  by (simp add: formatForDisplay_def substring_to_negative js_length)

text \<open>
  C5, as the code has it: for every string \<open>text\<close> and every integer \<open>maxLength\<close>,
  \<open>formatForDisplay text maxLength\<close> is \<open>text\<close> unchanged when
  \<open>length text \<le> maxLength\<close>. Otherwise, when \<open>maxLength\<close> is not negative, it is the
  first \<open>maxLength\<close> code units of \<open>text\<close> followed by the three code units \<open>...\<close>, of
  length \<open>maxLength + 3\<close>; when \<open>maxLength\<close> is negative it is the marker \<open>...\<close> alone.
\<close>

theorem formatForDisplay_truncates:
  "(int (length text) \<le> maxLength \<longrightarrow> formatForDisplay text maxLength = text) \<and>
   (0 \<le> maxLength \<and> maxLength < int (length text) \<longrightarrow>
      formatForDisplay text maxLength = take (nat maxLength) text @ js ''...'' \<and>
      int (length (formatForDisplay text maxLength)) = maxLength + 3) \<and>
   (maxLength < 0 \<longrightarrow> formatForDisplay text maxLength = js ''...'')"
proof (cases "maxLength < 0")
  case True
  then have "\<not> int (length text) \<le> maxLength"
    by simp
  with True show ?thesis
    by (simp add: formatForDisplay_def substring_to_negative)
next
  case False
  then have "substring text 0 maxLength = take (nat maxLength) text"
    by (simp add: substring_from_0)
  with False show ?thesis
    by (auto simp: formatForDisplay_def js_length)
qed

text \<open>The two examples of the specification: a short text, and 150 letters cut at 100.\<close>

theorem formatForDisplay_truncates_witness:
  "formatForDisplay (js ''hello'') 10 = js ''hello'' \<and>
   formatForDisplay (replicate 150 0x61) 100 = replicate 100 0x61 @ js ''...'' \<and>
   int (length (formatForDisplay (replicate 150 0x61) 100)) = 103 \<and>
   formatForDisplay (js ''ab'') (-1) = js ''...''"
  using formatForDisplay_truncates [of "js ''hello''" 10]
    formatForDisplay_truncates [of "replicate 150 0x61" 100]
    formatForDisplay_truncates [of "js ''ab''" "-1"]
  by (simp add: js_length)

section \<open>The service\<close>

lemmas async_defs = resolve_def await_def andThen_def try_catch_def

subsection \<open>Every operation with a \<open>try\<close> around its body resolves\<close>

lemma try_catch_resolves:
  assumes "\<And>e w. \<exists>x w'. handler e w = (Inr x, w')"
  shows "\<exists>x w'. try_catch m handler w = (Inr x, w')"
proof (cases "m w")
  case (Pair r w1)
  then show ?thesis
    using assms by (cases r) (auto simp: try_catch_def)
qed

lemma copyText_resolves: "\<exists>r p'. copyText P text p = (Inr r, p')"
  unfolding copyText_def by (rule try_catch_resolves) (auto simp: resolve_def)

lemma copyUrl_resolves: "\<exists>r p'. copyUrl up P url p = (Inr r, p')"
  unfolding copyUrl_def by (rule try_catch_resolves) (auto simp: resolve_def)

lemma getText_resolves: "\<exists>r p'. getText P p = (Inr r, p')"
  unfolding getText_def by (rule try_catch_resolves) (auto simp: resolve_def)

lemma getUrl_resolves: "\<exists>r p'. getUrl P p = (Inr r, p')"
  unfolding getUrl_def by (rule try_catch_resolves) (auto simp: resolve_def)

lemma hasContent_resolves: "\<exists>r p'. hasContent P p = (Inr r, p')"
  unfolding hasContent_def by (rule try_catch_resolves) (auto simp: resolve_def)

lemma hasUrl_resolves: "\<exists>r p'. hasUrl P p = (Inr r, p')"
  unfolding hasUrl_def by (rule try_catch_resolves) (auto simp: resolve_def)

lemma getContent_resolves: "\<exists>r p'. getContent up now P p = (Inr r, p')"
  unfolding getContent_def by (rule try_catch_resolves) (auto simp: resolve_def)

lemma clear_resolves: "\<exists>r p'. clear P p = (Inr r, p')"
  unfolding clear_def by (rule try_catch_resolves) (auto simp: resolve_def)

lemma copyWithFeedback_resolves: "\<exists>r p'. copyWithFeedback P text p = (Inr r, p')"
proof -
  obtain r p' where "copyText P text p = (Inr r, p')"
    using copyText_resolves [of P "text" p] by auto
  then show ?thesis
    by (simp add: copyWithFeedback_def await_def resolve_def Let_def)
qed

subsection \<open>The service, call by call\<close>

lemma copyText_cases:
  "copyText P text p =
     (case setStringAsync P (sanitize text) p of
        (Inl e, p') \<Rightarrow>
          (Inr \<lparr>success = False, content = None,
                error = Some (message_or e (js ''Failed to copy''))\<rparr>, p')
      | (Inr u, p') \<Rightarrow>
          (Inr \<lparr>success = True, content = Some (sanitize text), error = None\<rparr>, p'))"
  by (simp add: copyText_def async_defs Let_def split: prod.splits sum.splits)

lemma copyUrl_cases:
  "copyUrl up P url p =
     (if \<not> isUrl up url
      then (Inr \<lparr>success = False, content = None, error = Some (js ''Invalid URL format'')\<rparr>, p)
      else case setUrlAsync P url p of
        (Inl e, p') \<Rightarrow>
          (Inr \<lparr>success = False, content = None,
                error = Some (message_or e (js ''Failed to copy URL''))\<rparr>, p')
      | (Inr u, p') \<Rightarrow>
          (Inr \<lparr>success = True, content = Some url, error = None\<rparr>, p'))"
  by (simp add: copyUrl_def async_defs split: prod.splits sum.splits)

lemma getText_cases:
  "getText P p =
     (case hasStringAsync P p of
        (Inl e, p') \<Rightarrow>
          (Inr \<lparr>success = False, content = None,
                error = Some (message_or e (js ''Failed to read clipboard''))\<rparr>, p')
      | (Inr hasString, p') \<Rightarrow>
          if \<not> hasString
          then (Inr \<lparr>success = False, content = None,
                     error = Some (js ''Clipboard is empty'')\<rparr>, p')
          else case getStringAsync P p' of
            (Inl e, p'') \<Rightarrow>
              (Inr \<lparr>success = False, content = None,
                    error = Some (message_or e (js ''Failed to read clipboard''))\<rparr>, p'')
          | (Inr c, p'') \<Rightarrow>
              (Inr \<lparr>success = True, content = Some c, error = None\<rparr>, p''))"
  by (simp add: getText_def async_defs split: prod.splits sum.splits)

lemma getUrl_cases:
  "getUrl P p =
     (case hasUrlAsync P p of
        (Inl e, p') \<Rightarrow>
          (Inr \<lparr>success = False, content = None,
                error = Some (message_or e (js ''Failed to read URL''))\<rparr>, p')
      | (Inr present, p') \<Rightarrow>
          if \<not> present
          then (Inr \<lparr>success = False, content = None,
                     error = Some (js ''No URL in clipboard'')\<rparr>, p')
          else case getUrlAsync P p' of
            (Inl e, p'') \<Rightarrow>
              (Inr \<lparr>success = False, content = None,
                    error = Some (message_or e (js ''Failed to read URL''))\<rparr>, p'')
          | (Inr url, p'') \<Rightarrow>
              (Inr \<lparr>success = True, content = Some (or_else url (js '''')), error = None\<rparr>,
               p''))"
  by (simp add: getUrl_def async_defs split: prod.splits sum.splits)

lemma getContent_on:
  assumes "getText P p = (Inr r, p')"
  shows "getContent up now P p =
    (case content r of
       None \<Rightarrow> (Inr None, p')
     | Some c \<Rightarrow>
         if \<not> success r \<or> c = [] then (Inr None, p')
         else (Inr (Some \<lparr>contentType = detectContentType up c, contentText = c,
                           timestamp = now\<rparr>), p'))"
  using assms by (simp add: getContent_def async_defs split: option.splits)

subsection \<open>The fake platform\<close>

lemma fake_simps:
  "setStringAsync (fake e) s st = (Inr (), st\<lparr>stringItem := Some s\<rparr>)"
  "getStringAsync (fake e) st = (Inr (case stringItem st of None \<Rightarrow> [] | Some s \<Rightarrow> s), st)"
  "hasStringAsync (fake e) st =
     (Inr (case stringItem st of None \<Rightarrow> False | Some s \<Rightarrow> e \<or> s \<noteq> []), st)"
  "setUrlAsync (fake e) u st = (Inr (), st\<lparr>urlItem := Some u\<rparr>)"
  "getUrlAsync (fake e) st = (Inr (urlItem st), st)"
  "hasUrlAsync (fake e) st = (Inr (urlItem st \<noteq> None), st)"
  by (simp_all add: fake_def)

lemma rejecting_simps:
  "setStringAsync (rejecting e) s u = (Inl e, u)"
  "getStringAsync (rejecting e) u = (Inl e, u)"
  "hasStringAsync (rejecting e) u = (Inl e, u)"
  "setUrlAsync (rejecting e) s u = (Inl e, u)"
  "getUrlAsync (rejecting e) u = (Inl e, u)"
  "hasUrlAsync (rejecting e) u = (Inl e, u)"
  by (simp_all add: rejecting_def)

lemma recording_simps:
  "setStringAsync (recording P) s (p, log) =
     (case setStringAsync P s p of (r, p') \<Rightarrow> (r, (p', log @ [SetString s])))"
  "setUrlAsync (recording P) s (p, log) =
     (case setUrlAsync P s p of (r, p') \<Rightarrow> (r, (p', log @ [SetUrl s])))"
  "hasStringAsync (recording P) (p, log) =
     (case hasStringAsync P p of (r, p') \<Rightarrow> (r, (p', log @ [HasString])))"
  by (simp_all add: recording_def logged_def)

lemma copyText_fake:
  "copyText (fake e) text p =
     (Inr \<lparr>success = True, content = Some (sanitize text), error = None\<rparr>,
      p\<lparr>stringItem := Some (sanitize text)\<rparr>)"
  by (simp add: copyText_cases fake_simps)

lemma getText_fake:
  "getText (fake e) p =
     (case stringItem p of
        None \<Rightarrow>
          (Inr \<lparr>success = False, content = None, error = Some (js ''Clipboard is empty'')\<rparr>, p)
      | Some s \<Rightarrow>
          if e \<or> s \<noteq> []
          then (Inr \<lparr>success = True, content = Some s, error = None\<rparr>, p)
          else (Inr \<lparr>success = False, content = None,
                     error = Some (js ''Clipboard is empty'')\<rparr>, p))"
  by (simp add: getText_cases fake_simps split: option.splits)

lemma getText_fake_holding:
  "getText (fake True) (holding s) =
     (Inr \<lparr>success = True, content = Some s, error = None\<rparr>, holding s)"
  by (simp add: getText_fake holding_def)

lemma getText_fake_empty:
  "getText (fake e) empty_clipboard =
     (Inr \<lparr>success = False, content = None, error = Some (js ''Clipboard is empty'')\<rparr>,
      empty_clipboard)"
  by (simp add: getText_fake empty_clipboard_def)

lemma sanitize_padded: "sanitize (js ''  padded text  '') = js ''padded text''"
  by (simp add: sanitize_is_take trim_def isWhiteSpace_def js_def)

lemma sanitize_space: "sanitize (js '' '') = js ''''"
  by (simp add: sanitize_is_take trim_def isWhiteSpace_def js_def)

lemma isUrl_examples:
  "\<not> isUrl up (js ''not-a-url'')"
  "isUrl up (js ''https://example.com'')"
  by (simp_all add: isUrl_iff matches_http_prefix_def has_prefix_ci_def js_def asciiLower_def)

subsection \<open>C3: \<open>copyText\<close>, then \<open>getText\<close>\<close>

text \<open>
  C3 claims, for every text, that \<open>getText\<close> right after \<open>copyText(text)\<close> succeeds with
  the sanitized text. \<open>getText\<close> first asks the platform whether it holds a string, and
  a text of white space only is sanitized to the empty string. On the fake platform
  that, like \<open>clear\<close> of the service, takes the empty string for an empty clipboard,
  \<open>copyText(' ')\<close> succeeds with content \<open>''\<close> and the \<open>getText\<close> that follows fails
  with \<open>Clipboard is empty\<close>.
\<close>

theorem copyText_then_getText_counterexample:
  "sanitize (js '' '') = js '''' \<and>
   fst (copyText (fake False) (js '' '') empty_clipboard) =
     Inr \<lparr>success = True, content = Some (js ''''), error = None\<rparr> \<and>
   fst (getText (fake False) (snd (copyText (fake False) (js '' '') empty_clipboard))) =
     Inr \<lparr>success = False, content = None, error = Some (js ''Clipboard is empty'')\<rparr>"
  by (simp add: copyText_fake getText_fake sanitize_space) (simp add: js_def)

text \<open>
  C3, as the code has it: on the fake in-memory platform, from any state, \<open>copyText(text)\<close>
  succeeds with content \<open>sanitize text\<close>, and \<open>getText\<close> right after it succeeds with
  content \<open>sanitize text\<close> whenever the sanitized text is not empty, or the platform
  reports a stored empty string as content. When the sanitized text is empty and the
  platform reports an empty clipboard, \<open>getText\<close> fails with \<open>Clipboard is empty\<close>.
\<close>

theorem copyText_then_getText:
  "fst (copyText (fake emptyIsContent) text p) =
     Inr \<lparr>success = True, content = Some (sanitize text), error = None\<rparr> \<and>
   (emptyIsContent \<or> sanitize text \<noteq> [] \<longrightarrow>
      fst (getText (fake emptyIsContent) (snd (copyText (fake emptyIsContent) text p))) =
        Inr \<lparr>success = True, content = Some (sanitize text), error = None\<rparr>) \<and>
   (\<not> emptyIsContent \<and> sanitize text = [] \<longrightarrow>
      fst (getText (fake emptyIsContent) (snd (copyText (fake emptyIsContent) text p))) =
        Inr \<lparr>success = False, content = None, error = Some (js ''Clipboard is empty'')\<rparr>)"
proof -
  let ?F = "fake emptyIsContent"
  have written: "copyText ?F text p =
      (Inr \<lparr>success = True, content = Some (sanitize text), error = None\<rparr>,
       p\<lparr>stringItem := Some (sanitize text)\<rparr>)"
    by (rule copyText_fake)
  have read: "getText ?F (p\<lparr>stringItem := Some (sanitize text)\<rparr>) =
      (if emptyIsContent \<or> sanitize text \<noteq> []
       then (Inr \<lparr>success = True, content = Some (sanitize text), error = None\<rparr>,
             p\<lparr>stringItem := Some (sanitize text)\<rparr>)
       else (Inr \<lparr>success = False, content = None,
                  error = Some (js ''Clipboard is empty'')\<rparr>,
             p\<lparr>stringItem := Some (sanitize text)\<rparr>))"
    by (simp add: getText_fake)
  show ?thesis
    unfolding written using read by auto
qed

text \<open>
  The padded text of the specification comes back trimmed, on both fake platforms; a
  single space comes back as the empty string on the one and as an empty clipboard on
  the other.
\<close>

theorem copyText_then_getText_witness:
  "sanitize (js ''  padded text  '') \<noteq> [] \<and>
   fst (getText (fake False)
         (snd (copyText (fake False) (js ''  padded text  '') empty_clipboard))) =
     Inr \<lparr>success = True, content = Some (js ''padded text''), error = None\<rparr> \<and>
   fst (getText (fake True)
         (snd (copyText (fake True) (js ''  padded text  '') empty_clipboard))) =
     Inr \<lparr>success = True, content = Some (js ''padded text''), error = None\<rparr> \<and>
   sanitize (js '' '') = [] \<and>
   fst (getText (fake True) (snd (copyText (fake True) (js '' '') empty_clipboard))) =
     Inr \<lparr>success = True, content = Some [], error = None\<rparr> \<and>
   fst (getText (fake False) (snd (copyText (fake False) (js '' '') empty_clipboard))) =
     Inr \<lparr>success = False, content = None, error = Some (js ''Clipboard is empty'')\<rparr>"
  using copyText_then_getText [of False "js ''  padded text  ''" empty_clipboard]
    copyText_then_getText [of True "js ''  padded text  ''" empty_clipboard]
    copyText_then_getText [of True "js '' ''" empty_clipboard]
    copyText_then_getText [of False "js '' ''" empty_clipboard]
  by (simp add: sanitize_padded sanitize_space) (simp add: js_def)

text \<open>
  The same round trip on any platform that, at the state in question, stores the string,
  reports it and returns it.
\<close>

lemma in_memory_round_trip:
  assumes "setStringAsync P (sanitize text) p = (Inr (), p1)"
    and "hasStringAsync P p1 = (Inr True, p2)"
    and "getStringAsync P p2 = (Inr (sanitize text), p3)"
  shows "copyText P text p =
      (Inr \<lparr>success = True, content = Some (sanitize text), error = None\<rparr>, p1)"
    and "getText P p1 =
      (Inr \<lparr>success = True, content = Some (sanitize text), error = None\<rparr>, p3)"
  using assms by (simp_all add: copyText_cases getText_cases)

subsection \<open>C4: \<open>copyUrl\<close>\<close>

text \<open>
  C4: for every string \<open>url\<close> that \<open>isUrl\<close> rejects, \<open>copyUrl\<close> resolves with the failed
  result whose error is \<open>Invalid URL format\<close>, and on a mock that records the calls it
  receives neither the platform state nor the record of calls changes: no call is made,
  so the number of URL writes stays the same. For every \<open>url\<close> that \<open>isUrl\<close> accepts,
  \<open>copyUrl\<close> resolves with a result, and a result that is a success carries \<open>url\<close>
  itself as content; this is the result whenever the platform's URL write resolves.
\<close>

theorem copyUrl_validates_first:
  "(\<not> isUrl up url \<longrightarrow>
      copyUrl up (recording P) url (p, log) =
        (Inr \<lparr>success = False, content = None, error = Some (js ''Invalid URL format'')\<rparr>,
         (p, log)) \<and>
      url_writes (snd (snd (copyUrl up (recording P) url (p, log)))) = url_writes log) \<and>
   (isUrl up url \<longrightarrow>
      (\<exists>r. fst (copyUrl up Q url q) = Inr r \<and> (success r \<longrightarrow> content r = Some url))) \<and>
   (isUrl up url \<and> setUrlAsync Q url q = (Inr (), q') \<longrightarrow>
      copyUrl up Q url q = (Inr \<lparr>success = True, content = Some url, error = None\<rparr>, q'))"
proof (cases "isUrl up url")
  case False
  then have "copyUrl up (recording P) url (p, log) =
      (Inr \<lparr>success = False, content = None, error = Some (js ''Invalid URL format'')\<rparr>,
       (p, log))"
    by (simp add: copyUrl_cases)
  with False show ?thesis
    by simp
next
  case True
  obtain x q1 where w: "setUrlAsync Q url q = (x, q1)"
    by (cases "setUrlAsync Q url q")
  show ?thesis
  proof (cases x)
    case (Inl e)
    with True w show ?thesis
      by (simp add: copyUrl_cases)
  next
    case (Inr u)
    with True w show ?thesis
      by (simp add: copyUrl_cases)
  qed
qed

text \<open>
  \<open>copyUrl('not-a-url')\<close> on the recording mock of the fake platform, and
  \<open>copyUrl('https://example.com')\<close> on the fake platform.
\<close>

theorem copyUrl_validates_first_witness:
  "\<not> isUrl no_upper_case (js ''not-a-url'') \<and>
   copyUrl no_upper_case (recording (fake False)) (js ''not-a-url'') (empty_clipboard, []) =
     (Inr \<lparr>success = False, content = None, error = Some (js ''Invalid URL format'')\<rparr>,
      (empty_clipboard, [])) \<and>
   url_writes (snd (snd (copyUrl no_upper_case (recording (fake False)) (js ''not-a-url'')
     (empty_clipboard, [])))) = 0 \<and>
   isUrl no_upper_case (js ''https://example.com'') \<and>
   copyUrl no_upper_case (fake False) (js ''https://example.com'') empty_clipboard =
     (Inr \<lparr>success = True, content = Some (js ''https://example.com''), error = None\<rparr>,
      empty_clipboard\<lparr>urlItem := Some (js ''https://example.com'')\<rparr>)"
  using copyUrl_validates_first [of no_upper_case "js ''not-a-url''" "fake False"
      empty_clipboard "[]"]
    copyUrl_validates_first [of no_upper_case "js ''https://example.com''" _ _ _ "fake False"
      empty_clipboard "empty_clipboard\<lparr>urlItem := Some (js ''https://example.com'')\<rparr>"]
  by (simp add: isUrl_examples fake_simps url_writes_def)

subsection \<open>C6: the shape of a \<open>ClipboardResult\<close>\<close>

lemma copyText_shape: "result_shape (fst (copyText P text p))"
  by (simp add: copyText_cases result_shape_def split: prod.splits sum.splits)

lemma copyUrl_shape: "result_shape (fst (copyUrl up P url p))"
  by (simp add: copyUrl_cases result_shape_def split: prod.splits sum.splits)

lemma getText_shape: "result_shape (fst (getText P p))"
  by (simp add: getText_cases result_shape_def split: prod.splits sum.splits)

lemma getUrl_shape: "result_shape (fst (getUrl P p))"
  by (simp add: getUrl_cases result_shape_def split: prod.splits sum.splits)

text \<open>
  C6: on every platform, from every state and for every argument, each of \<open>copyText\<close>,
  \<open>copyUrl\<close>, \<open>getText\<close> and \<open>getUrl\<close> resolves with a \<open>ClipboardResult\<close> (it never
  rejects) in which \<open>content\<close> is present exactly when \<open>success\<close> is true, and \<open>error\<close> is
  present exactly when \<open>success\<close> is false. All four operations produce a value on
  success.
\<close>

theorem service_results_shape:
  "result_shape (fst (copyText P text p)) \<and>
   result_shape (fst (copyUrl up P url p)) \<and>
   result_shape (fst (getText P p)) \<and>
   result_shape (fst (getUrl P p))"
proof (intro conjI)
  show "result_shape (fst (copyText P text p))"
    by (rule copyText_shape)
  show "result_shape (fst (copyUrl up P url p))"
    by (rule copyUrl_shape)
  show "result_shape (fst (getText P p))"
    by (rule getText_shape)
  show "result_shape (fst (getUrl P p))"
    by (rule getUrl_shape)
qed

text \<open>The four results on the platform where every call rejects with an \<open>Error\<close>.\<close>

theorem service_results_shape_witness:
  "result_shape (fst (copyText (rejecting denied) (js ''note'') ())) \<and>
   result_shape (fst (copyUrl no_upper_case (rejecting denied) (js ''https://example.com'') ())) \<and>
   result_shape (fst (getText (rejecting denied) ())) \<and>
   result_shape (fst (getUrl (rejecting denied) ())) \<and>
   fst (getText (rejecting denied) ()) =
     Inr \<lparr>success = False, content = None, error = Some (js ''Permission denied'')\<rparr>"
  using service_results_shape [of "rejecting denied" "js ''note''" "()" no_upper_case
      "js ''https://example.com''"]
  by (simp add: getText_cases rejecting_simps denied_def message_or_def)

subsection \<open>C7: \<open>hasContent\<close> and \<open>hasUrl\<close>\<close>

text \<open>
  C7: on every platform and from every state, \<open>hasContent\<close> and \<open>hasUrl\<close> resolve with a
  boolean and never reject. When the platform's check rejects, with whatever thrown
  value, the operation resolves with \<open>false\<close>; when the check resolves, the operation
  resolves with the same boolean.
\<close>

theorem hasContent_hasUrl_never_raise:
  "(\<exists>b. fst (hasContent P p) = Inr b) \<and>
   (\<exists>b. fst (hasUrl P p) = Inr b) \<and>
   (hasStringAsync P p = (Inl e, p') \<longrightarrow> hasContent P p = (Inr False, p')) \<and>
   (hasUrlAsync P p = (Inl e, p') \<longrightarrow> hasUrl P p = (Inr False, p')) \<and>
   (hasStringAsync P p = (Inr b, p') \<longrightarrow> hasContent P p = (Inr b, p')) \<and>
   (hasUrlAsync P p = (Inr b, p') \<longrightarrow> hasUrl P p = (Inr b, p'))"
  using hasContent_resolves [of P p] hasUrl_resolves [of P p]
  by (auto simp: hasContent_def hasUrl_def try_catch_def resolve_def)

text \<open>The platform whose checks throw, and the fake platform holding a string.\<close>

theorem hasContent_hasUrl_never_raise_witness:
  "hasStringAsync (rejecting denied) () = (Inl denied, ()) \<and>
   hasContent (rejecting denied) () = (Inr False, ()) \<and>
   hasUrlAsync (rejecting denied) () = (Inl denied, ()) \<and>
   hasUrl (rejecting denied) () = (Inr False, ()) \<and>
   hasStringAsync (fake False) (holding (js ''note'')) = (Inr True, holding (js ''note'')) \<and>
   hasContent (fake False) (holding (js ''note'')) = (Inr True, holding (js ''note'')) \<and>
   hasUrlAsync (fake False) (holding (js ''note'')) = (Inr False, holding (js ''note'')) \<and>
   hasUrl (fake False) (holding (js ''note'')) = (Inr False, holding (js ''note''))"
  using hasContent_hasUrl_never_raise [of "rejecting denied" "()" denied "()"]
    hasContent_hasUrl_never_raise [of "fake False" "holding (js ''note'')" _
      "holding (js ''note'')" True]
    hasContent_hasUrl_never_raise [of "fake False" "holding (js ''note'')" _
      "holding (js ''note'')" False]
  by (simp add: rejecting_simps fake_simps holding_def js_def)

subsection \<open>C10: \<open>getContent\<close>\<close>

text \<open>
  C10: on every platform and from every state, \<open>getContent\<close> resolves and never
  rejects. When it resolves with a \<open>ClipboardContent\<close> and not with \<open>null\<close>, the content
  string is not empty and the type is not \<open>EMPTY\<close>: it is \<open>TEXT\<close> or \<open>URL\<close>. When
  \<open>getText\<close> fails, or succeeds with an empty string, \<open>getContent\<close> resolves with \<open>null\<close>.
\<close>

theorem getContent_never_empty:
  "(\<exists>r. fst (getContent up now P p) = Inr r) \<and>
   (fst (getContent up now P p) = Inr (Some c) \<longrightarrow>
      contentText c \<noteq> [] \<and> contentType c \<noteq> EMPTY \<and>
      (contentType c = TEXT \<or> contentType c = URL)) \<and>
   (fst (getText P p) = Inr r \<and> (\<not> success r \<or> \<not> truthy (content r)) \<longrightarrow>
      fst (getContent up now P p) = Inr None)"
proof -
  obtain r' p' where g: "getText P p = (Inr r', p')"
    using getText_resolves [of P p] by auto
  show ?thesis
    unfolding getContent_on [OF g] using g
    by (auto simp: detectContentType_def truthy_def split: option.splits)
qed

text \<open>
  The fake platform holding a URL, an empty string, and nothing; \<open>1762128000000\<close> is
  the clock.
\<close>

theorem getContent_never_empty_witness:
  "fst (getContent no_upper_case 1762128000000 (fake True) (holding (js ''https://example.com''))) =
     Inr (Some \<lparr>contentType = URL, contentText = js ''https://example.com'',
                 timestamp = 1762128000000\<rparr>) \<and>
   js ''https://example.com'' \<noteq> [] \<and>
   fst (getText (fake True) (holding (js ''''))) =
     Inr \<lparr>success = True, content = Some (js ''''), error = None\<rparr> \<and>
   fst (getContent no_upper_case 1762128000000 (fake True) (holding (js ''''))) = Inr None \<and>
   fst (getContent no_upper_case 1762128000000 (fake True) empty_clipboard) = Inr None"
  using getContent_never_empty [of no_upper_case 1762128000000 "fake True"
      "holding (js ''https://example.com'')"
      "\<lparr>contentType = URL, contentText = js ''https://example.com'',
        timestamp = 1762128000000\<rparr>"]
    getContent_never_empty [of no_upper_case 1762128000000 "fake True" "holding (js '''')" _
      "\<lparr>success = True, content = Some (js ''''), error = None\<rparr>"]
    getContent_never_empty [of no_upper_case 1762128000000 "fake True" empty_clipboard _
      "\<lparr>success = False, content = None, error = Some (js ''Clipboard is empty'')\<rparr>"]
  by (simp add: getContent_on [OF getText_fake_holding] getContent_on [OF getText_fake_empty]
      getText_fake_holding detectContentType_def isUrl_examples truthy_def)
    (simp add: js_def)

section \<open>The hook\<close>

lemma hook_state_simps:
  "setCopiedText c (b, p) = (Inr (), (b\<lparr>copiedText := c\<rparr>, p))"
  "setHasCopied h (b, p) = (Inr (), (b\<lparr>hasCopied := h\<rparr>, p))"
  "setError v (b, p) = (Inr (), (b\<lparr>hookError := v\<rparr>, p))"
  "setTimeout d (b, p) = (Inr (), (b\<lparr>timers := timers b @ [clock b + d]\<rparr>, p))"
  "service m (b, p) = (case m p of (r, p') \<Rightarrow> (r, (b, p')))"
  by (simp_all add: setCopiedText_def setHasCopied_def setError_def setTimeout_def service_def)

subsection \<open>Each operation of the hook, given what the service resolved with\<close>

lemma useClipboard_copy_on:
  assumes "copyText P text p = (Inr r, p')"
  shows "useClipboard_copy P text (b, p) =
    (if success r
     then (Inr True, b\<lparr>hookError := None, copiedText := Some text, hasCopied := True,
             timers := timers b @ [clock b + 2000]\<rparr>, p')
     else (Inr False, b\<lparr>hookError := Some (or_else (error r) (js ''Failed to copy''))\<rparr>, p'))"
  using assms by (simp add: useClipboard_copy_def async_defs hook_state_simps)

lemma useClipboard_copyUrl_on:
  assumes "copyUrl up P url p = (Inr r, p')"
  shows "useClipboard_copyUrl up P url (b, p) =
    (if success r
     then (Inr True, b\<lparr>hookError := None, copiedText := Some url, hasCopied := True,
             timers := timers b @ [clock b + 2000]\<rparr>, p')
     else (Inr False, b\<lparr>hookError := Some (or_else (error r) (js ''Failed to copy URL''))\<rparr>,
           p'))"
  using assms by (simp add: useClipboard_copyUrl_def async_defs hook_state_simps)

lemma useClipboard_paste_on:
  assumes "getText P p = (Inr r, p')"
  shows "useClipboard_paste P (b, p) =
    (if success r \<and> truthy (content r)
     then (Inr (content r), b\<lparr>hookError := None\<rparr>, p')
     else (Inr None, b\<lparr>hookError := Some (or_else (error r) (js ''Clipboard is empty''))\<rparr>,
           p'))"
  using assms by (simp add: useClipboard_paste_def async_defs hook_state_simps)

lemma useClipboard_getContent_on:
  assumes "getContent up now P p = (Inr r, p')"
  shows "useClipboard_getContent up now P (b, p) = (Inr r, b\<lparr>hookError := None\<rparr>, p')"
  using assms by (simp add: useClipboard_getContent_def async_defs hook_state_simps)

lemma useClipboard_hasContent_on:
  assumes "hasContent P p = (Inr r, p')"
  shows "useClipboard_hasContent P (b, p) = (Inr r, b, p')"
  using assms by (simp add: useClipboard_hasContent_def async_defs hook_state_simps)

lemma useClipboard_hasUrl_on:
  assumes "hasUrl P p = (Inr r, p')"
  shows "useClipboard_hasUrl P (b, p) = (Inr r, b, p')"
  using assms by (simp add: useClipboard_hasUrl_def async_defs hook_state_simps)

lemma useClipboard_clear_on:
  assumes "clear P p = (Inr r, p')"
  shows "useClipboard_clear P (b, p) =
    (if r then (Inr True, b\<lparr>hookError := None, copiedText := None, hasCopied := False\<rparr>, p')
     else (Inr False, b\<lparr>hookError := None\<rparr>, p'))"
  using assms by (simp add: useClipboard_clear_def async_defs hook_state_simps)

lemma useClipboard_copyWithFeedback_on:
  assumes "copyWithFeedback P text p = (Inr f, p')"
  shows "useClipboard_copyWithFeedback P text (b, p) =
    (if feedbackSuccess f
     then (Inr f, b\<lparr>hookError := None, copiedText := Some text, hasCopied := True,
             timers := timers b @ [clock b + 2000]\<rparr>, p')
     else (Inr f, b\<lparr>hookError := Some (message f)\<rparr>, p'))"
  using assms by (simp add: useClipboard_copyWithFeedback_def async_defs hook_state_simps)

lemma copyText_written:
  "setStringAsync P (sanitize text) p = (Inr (), p') \<Longrightarrow>
   copyText P text p =
     (Inr \<lparr>success = True, content = Some (sanitize text), error = None\<rparr>, p')"
  by (simp add: copyText_cases)

lemma copyText_rejecting:
  "copyText (rejecting e) text () =
     (Inr \<lparr>success = False, content = None,
           error = Some (message_or e (js ''Failed to copy''))\<rparr>, ())"
  by (simp add: copyText_cases rejecting_simps)

lemma padded_is_not_trimmed: "js ''  padded text  '' \<noteq> js ''padded text''"
  by (simp add: js_def)

subsection \<open>C8: \<open>copy\<close> and the feedback flag\<close>

text \<open>
  C8 claims that after \<open>copy('  padded text  ')\<close> the last copied text is the trimmed
  string \<open>padded text\<close>. On the fake platform the copy succeeds and the clipboard holds
  the trimmed string, but the hook stores its argument: \<open>copiedText\<close> is the padded
  string.
\<close>

theorem copy_copiedText_counterexample:
  "fst (useClipboard_copy (fake False) (js ''  padded text  '')
         (useClipboard 0, empty_clipboard)) = Inr True \<and>
   stringItem (snd (snd (useClipboard_copy (fake False) (js ''  padded text  '')
         (useClipboard 0, empty_clipboard)))) = Some (js ''padded text'') \<and>
   copiedText (binding_after (useClipboard_copy (fake False) (js ''  padded text  '')
         (useClipboard 0, empty_clipboard))) = Some (js ''  padded text  '') \<and>
   copiedText (binding_after (useClipboard_copy (fake False) (js ''  padded text  '')
         (useClipboard 0, empty_clipboard))) \<noteq> Some (js ''padded text'')"
  by (simp add: useClipboard_copy_on [OF copyText_fake] binding_after_def sanitize_padded
      padded_is_not_trimmed)

text \<open>
  C8, as the code has it: when the platform write of the sanitized text resolves,
  \<open>copy(text)\<close> on the hook resolves with \<open>true\<close>; right after it the feedback flag
  \<open>hasCopied\<close> is true and \<open>copiedText\<close> is the text as it was passed, untrimmed (the
  trimmed text is what was written to the platform). Once 2000 milliseconds or more
  have passed the flag is false; before that, if no earlier timer was pending, it is
  still true.
\<close>

theorem copy_feedback:
  assumes "setStringAsync P (sanitize text) p = (Inr (), p')"
  shows "useClipboard_copy P text (b, p) =
      (Inr True, b\<lparr>hookError := None, copiedText := Some text, hasCopied := True,
                   timers := timers b @ [clock b + 2000]\<rparr>, p') \<and>
    hasCopied (binding_after (useClipboard_copy P text (b, p))) \<and>
    copiedText (binding_after (useClipboard_copy P text (b, p))) = Some text \<and>
    (2000 \<le> dt \<longrightarrow>
       \<not> hasCopied (elapse dt (binding_after (useClipboard_copy P text (b, p))))) \<and>
    (dt < 2000 \<and> timers b = [] \<longrightarrow>
       hasCopied (elapse dt (binding_after (useClipboard_copy P text (b, p)))))"
  by (simp add: useClipboard_copy_on [OF copyText_written [OF assms]] binding_after_def
      elapse_def Let_def)

text \<open>
  \<open>copy('  padded text  ')\<close> on a fresh hook and the empty fake platform: the flag after
  1999 and after 2000 milliseconds.
\<close>

theorem copy_feedback_witness:
  "setStringAsync (fake False) (sanitize (js ''  padded text  '')) empty_clipboard =
     (Inr (), empty_clipboard\<lparr>stringItem := Some (js ''padded text'')\<rparr>) \<and>
   timers (useClipboard 0) = [] \<and>
   hasCopied (binding_after (useClipboard_copy (fake False) (js ''  padded text  '')
     (useClipboard 0, empty_clipboard))) \<and>
   copiedText (binding_after (useClipboard_copy (fake False) (js ''  padded text  '')
     (useClipboard 0, empty_clipboard))) = Some (js ''  padded text  '') \<and>
   hasCopied (elapse 1999 (binding_after (useClipboard_copy (fake False)
     (js ''  padded text  '') (useClipboard 0, empty_clipboard)))) \<and>
   \<not> hasCopied (elapse 2000 (binding_after (useClipboard_copy (fake False)
     (js ''  padded text  '') (useClipboard 0, empty_clipboard))))"
proof -
  have w: "setStringAsync (fake False) (sanitize (js ''  padded text  '')) empty_clipboard =
     (Inr (), empty_clipboard\<lparr>stringItem := Some (js ''padded text'')\<rparr>)"
    by (simp add: fake_simps sanitize_padded)
  have t: "timers (useClipboard 0) = []"
    by (simp add: useClipboard_def)
  have before: "(1999 :: nat) < 2000" and after: "(2000 :: nat) \<le> 2000"
    by simp_all
  show ?thesis
    using w t before after copy_feedback [OF w, of "useClipboard 0" 1999]
      copy_feedback [OF w, of "useClipboard 0" 2000]
    by blast
qed

subsection \<open>C9: the last error\<close>

lemma after_failed_copyUrl_eq:
  "after_failed_copyUrl =
     (useClipboard 0\<lparr>hookError := Some (js ''Invalid URL format'')\<rparr>, empty_clipboard)"
proof -
  have "copyUrl no_upper_case (fake False) (js ''not-a-url'') empty_clipboard =
      (Inr \<lparr>success = False, content = None, error = Some (js ''Invalid URL format'')\<rparr>,
       empty_clipboard)"
    by (simp add: copyUrl_cases isUrl_examples)
  from useClipboard_copyUrl_on [OF this, of "useClipboard 0"] show ?thesis
    by (simp add: after_failed_copyUrl_def or_else_def js_def)
qed

lemma hasContent_fake: "hasContent (fake e) p = (Inr (fst (hasStringAsync (fake e) p) = Inr True), p)"
  by (simp add: hasContent_def try_catch_def fake_simps)

lemma hasUrl_fake: "hasUrl (fake e) p = (Inr (urlItem p \<noteq> None), p)"
  by (simp add: hasUrl_def try_catch_def fake_simps)

lemma hasContent_rejecting: "hasContent (rejecting e) () = (Inr False, ())"
  by (simp add: hasContent_def try_catch_def resolve_def rejecting_simps)

lemma clear_rejecting: "clear (rejecting e) () = (Inr False, ())"
  by (simp add: clear_def async_defs rejecting_simps)

lemma getContent_rejecting: "getContent up now (rejecting e) () = (Inr None, ())"
proof -
  have "getText (rejecting e) () =
      (Inr \<lparr>success = False, content = None,
            error = Some (message_or e (js ''Failed to read clipboard''))\<rparr>, ())"
    by (simp add: getText_cases rejecting_simps)
  from getContent_on [OF this] show ?thesis
    by simp
qed

text \<open>
  C9 claims that every operation of the hook clears the last error before its work and
  sets it on failure. After \<open>copyUrl('not-a-url')\<close> has failed, the last error is
  \<open>Invalid URL format\<close>, and it still is after \<open>hasContent\<close> and after \<open>hasUrl\<close>: they do
  not clear it. On the platform where every call rejects, \<open>hasContent\<close> and \<open>clear\<close>
  resolve with \<open>false\<close> and \<open>getContent\<close> with \<open>null\<close>, and the last error stays
  absent: they do not set it.
\<close>

theorem last_error_counterexample:
  "hookError (fst after_failed_copyUrl) = Some (js ''Invalid URL format'') \<and>
   error_after (useClipboard_hasContent (fake False) after_failed_copyUrl) =
     Some (js ''Invalid URL format'') \<and>
   error_after (useClipboard_hasUrl (fake False) after_failed_copyUrl) =
     Some (js ''Invalid URL format'') \<and>
   fst (useClipboard_hasContent (rejecting denied) (useClipboard 0, ())) = Inr False \<and>
   error_after (useClipboard_hasContent (rejecting denied) (useClipboard 0, ())) = None \<and>
   fst (useClipboard_clear (rejecting denied) (useClipboard 0, ())) = Inr False \<and>
   error_after (useClipboard_clear (rejecting denied) (useClipboard 0, ())) = None \<and>
   fst (useClipboard_getContent no_upper_case 0 (rejecting denied) (useClipboard 0, ())) =
     Inr None \<and>
   error_after (useClipboard_getContent no_upper_case 0 (rejecting denied)
     (useClipboard 0, ())) = None"
  by (simp add: after_failed_copyUrl_eq error_after_def
      useClipboard_hasContent_on [OF hasContent_fake]
      useClipboard_hasUrl_on [OF hasUrl_fake]
      useClipboard_hasContent_on [OF hasContent_rejecting]
      useClipboard_clear_on [OF clear_rejecting]
      useClipboard_getContent_on [OF getContent_rejecting])
    (simp add: useClipboard_def)

lemma copy_last_error:
  "\<exists>r. fst (copyText P text p) = Inr r \<and>
     (if success r
      then fst (useClipboard_copy P text (b, p)) = Inr True \<and>
           error_after (useClipboard_copy P text (b, p)) = None
      else fst (useClipboard_copy P text (b, p)) = Inr False \<and>
           error_after (useClipboard_copy P text (b, p)) =
             Some (or_else (error r) (js ''Failed to copy'')))"
proof -
  obtain r p' where "copyText P text p = (Inr r, p')"
    using copyText_resolves [of P "text" p] by auto
  then show ?thesis
    by (simp add: useClipboard_copy_on error_after_def)
qed

lemma copyUrl_last_error:
  "\<exists>r. fst (copyUrl up P url p) = Inr r \<and>
     (if success r
      then fst (useClipboard_copyUrl up P url (b, p)) = Inr True \<and>
           error_after (useClipboard_copyUrl up P url (b, p)) = None
      else fst (useClipboard_copyUrl up P url (b, p)) = Inr False \<and>
           error_after (useClipboard_copyUrl up P url (b, p)) =
             Some (or_else (error r) (js ''Failed to copy URL'')))"
proof -
  obtain r p' where "copyUrl up P url p = (Inr r, p')"
    using copyUrl_resolves [of up P url p] by auto
  then show ?thesis
    by (simp add: useClipboard_copyUrl_on error_after_def)
qed

lemma paste_last_error:
  "\<exists>r. fst (getText P p) = Inr r \<and>
     (if success r \<and> truthy (content r)
      then fst (useClipboard_paste P (b, p)) = Inr (content r) \<and>
           error_after (useClipboard_paste P (b, p)) = None
      else fst (useClipboard_paste P (b, p)) = Inr None \<and>
           error_after (useClipboard_paste P (b, p)) =
             Some (or_else (error r) (js ''Clipboard is empty'')))"
proof -
  obtain r p' where "getText P p = (Inr r, p')"
    using getText_resolves [of P p] by auto
  then show ?thesis
    by (simp add: useClipboard_paste_on error_after_def)
qed

lemma copyWithFeedback_last_error:
  "\<exists>f. fst (copyWithFeedback P text p) = Inr f \<and>
     fst (useClipboard_copyWithFeedback P text (b, p)) = Inr f \<and>
     (if feedbackSuccess f
      then error_after (useClipboard_copyWithFeedback P text (b, p)) = None
      else error_after (useClipboard_copyWithFeedback P text (b, p)) = Some (message f))"
proof -
  obtain f p' where "copyWithFeedback P text p = (Inr f, p')"
    using copyWithFeedback_resolves [of P "text" p] by auto
  then show ?thesis
    by (simp add: useClipboard_copyWithFeedback_on error_after_def)
qed

lemma getContent_last_error:
  "fst (useClipboard_getContent up now P (b, p)) = fst (getContent up now P p) \<and>
   error_after (useClipboard_getContent up now P (b, p)) = None"
proof -
  obtain r p' where "getContent up now P p = (Inr r, p')"
    using getContent_resolves [of up now P p] by auto
  then show ?thesis
    by (simp add: useClipboard_getContent_on error_after_def)
qed

lemma clear_last_error:
  "fst (useClipboard_clear P (b, p)) = fst (clear P p) \<and>
   error_after (useClipboard_clear P (b, p)) = None"
proof -
  obtain r p' where "clear P p = (Inr r, p')"
    using clear_resolves [of P p] by auto
  then show ?thesis
    by (simp add: useClipboard_clear_on error_after_def)
qed

lemma hasContent_last_error:
  "fst (useClipboard_hasContent P (b, p)) = fst (hasContent P p) \<and>
   error_after (useClipboard_hasContent P (b, p)) = hookError b"
proof -
  obtain r p' where "hasContent P p = (Inr r, p')"
    using hasContent_resolves [of P p] by auto
  then show ?thesis
    by (simp add: useClipboard_hasContent_on error_after_def)
qed

lemma hasUrl_last_error:
  "fst (useClipboard_hasUrl P (b, p)) = fst (hasUrl P p) \<and>
   error_after (useClipboard_hasUrl P (b, p)) = hookError b"
proof -
  obtain r p' where "hasUrl P p = (Inr r, p')"
    using hasUrl_resolves [of P p] by auto
  then show ?thesis
    by (simp add: useClipboard_hasUrl_on error_after_def)
qed

text \<open>
  C9, as the code has it, on every platform, from every state of the platform and of
  the hook, whatever the last error was before:
  \<^item> \<open>copy\<close>, \<open>copyUrl\<close>, \<open>paste\<close> and \<open>copyWithFeedback\<close> clear the last error and set it
    on failure: after the operation it is absent when the operation succeeded, and it
    is the message of the failure (or the fallback of the operation) when it failed;
  \<^item> \<open>getContent\<close> and \<open>clear\<close> clear the last error and leave it absent: they return
    what the service returns;
  \<^item> \<open>hasContent\<close> and \<open>hasUrl\<close> return what the service returns and leave the last
    error as it was.
\<close>

theorem last_error_by_operation:
  "(\<exists>r. fst (copyText P text p) = Inr r \<and>
     (if success r
      then fst (useClipboard_copy P text (b, p)) = Inr True \<and>
           error_after (useClipboard_copy P text (b, p)) = None
      else fst (useClipboard_copy P text (b, p)) = Inr False \<and>
           error_after (useClipboard_copy P text (b, p)) =
             Some (or_else (error r) (js ''Failed to copy'')))) \<and>
   (\<exists>r. fst (copyUrl up P url p) = Inr r \<and>
     (if success r
      then fst (useClipboard_copyUrl up P url (b, p)) = Inr True \<and>
           error_after (useClipboard_copyUrl up P url (b, p)) = None
      else fst (useClipboard_copyUrl up P url (b, p)) = Inr False \<and>
           error_after (useClipboard_copyUrl up P url (b, p)) =
             Some (or_else (error r) (js ''Failed to copy URL'')))) \<and>
   (\<exists>r. fst (getText P p) = Inr r \<and>
     (if success r \<and> truthy (content r)
      then fst (useClipboard_paste P (b, p)) = Inr (content r) \<and>
           error_after (useClipboard_paste P (b, p)) = None
      else fst (useClipboard_paste P (b, p)) = Inr None \<and>
           error_after (useClipboard_paste P (b, p)) =
             Some (or_else (error r) (js ''Clipboard is empty'')))) \<and>
   (\<exists>f. fst (copyWithFeedback P text p) = Inr f \<and>
     fst (useClipboard_copyWithFeedback P text (b, p)) = Inr f \<and>
     (if feedbackSuccess f
      then error_after (useClipboard_copyWithFeedback P text (b, p)) = None
      else error_after (useClipboard_copyWithFeedback P text (b, p)) = Some (message f))) \<and>
   (fst (useClipboard_getContent up now P (b, p)) = fst (getContent up now P p) \<and>
    error_after (useClipboard_getContent up now P (b, p)) = None) \<and>
   (fst (useClipboard_clear P (b, p)) = fst (clear P p) \<and>
    error_after (useClipboard_clear P (b, p)) = None) \<and>
   (fst (useClipboard_hasContent P (b, p)) = fst (hasContent P p) \<and>
    error_after (useClipboard_hasContent P (b, p)) = hookError b) \<and>
   (fst (useClipboard_hasUrl P (b, p)) = fst (hasUrl P p) \<and>
    error_after (useClipboard_hasUrl P (b, p)) = hookError b)"
  using copy_last_error [of P "text" p b] copyUrl_last_error [of up P url p b]
    paste_last_error [of P p b] copyWithFeedback_last_error [of P "text" p b]
    getContent_last_error [of up now P b p] clear_last_error [of P b p]
    hasContent_last_error [of P b p] hasUrl_last_error [of P b p]
  by blast

text \<open>
  The hook whose last error is \<open>Invalid URL format\<close>, on the platform where every call
  rejects with \<open>Permission denied\<close>: \<open>copy\<close> replaces the error by the message of the
  failure, \<open>clear\<close> removes it, \<open>hasContent\<close> leaves it.
\<close>

theorem last_error_by_operation_witness:
  "hookError (fst after_failed_copyUrl) = Some (js ''Invalid URL format'') \<and>
   fst (useClipboard_copy (rejecting denied) (js ''note'') (fst after_failed_copyUrl, ())) =
     Inr False \<and>
   error_after (useClipboard_copy (rejecting denied) (js ''note'')
     (fst after_failed_copyUrl, ())) = Some (js ''Permission denied'') \<and>
   fst (useClipboard_clear (rejecting denied) (fst after_failed_copyUrl, ())) = Inr False \<and>
   error_after (useClipboard_clear (rejecting denied) (fst after_failed_copyUrl, ())) = None \<and>
   fst (useClipboard_hasContent (rejecting denied) (fst after_failed_copyUrl, ())) =
     Inr False \<and>
   error_after (useClipboard_hasContent (rejecting denied) (fst after_failed_copyUrl, ())) =
     Some (js ''Invalid URL format'')"
  using last_error_by_operation [of "rejecting denied" "js ''note''" "()"
      "fst after_failed_copyUrl" no_upper_case "js ''not-a-url''" 0]
  by (simp add: copyText_rejecting clear_rejecting hasContent_rejecting
      after_failed_copyUrl_eq denied_def message_or_def or_else_def)
    (simp add: js_def)

end
